theory Spec2Isabelle
  imports Main
begin

section \<open>JavaScript values and objects\<close>

text \<open>
  The primitive values that flow through \<^verbatim>\<open>functions_js/index.js\<close>: the fields
  of the Auth user record, decoded from the event's JSON (strings, \<^verbatim>\<open>null\<close>, or
  nothing at all), and the literals \<^verbatim>\<open>null\<close> and \<^verbatim>\<open>0\<close> of the profile. Numbers
  are the integral ones.
\<close>

datatype jsval =
    JUndefined
  | JNull
  | JBool bool
  | JNum int
  | JStr string

text \<open>An object is a table of named properties.\<close>

type_synonym jsobject = "string \<rightharpoonup> jsval"

text \<open>
  What a field of a document holds: a plain value, in a write request the sentinel
  returned by \<^verbatim>\<open>FieldValue.serverTimestamp()\<close>, and in a committed document the
  timestamp the store put in its place.
\<close>

datatype field_value =
    Plain jsval
  | ServerTimestampSentinel
  | Timestamp nat

type_synonym document = "string \<rightharpoonup> field_value"

text \<open>\<^verbatim>\<open>obj.name\<close>: reading a property the object does not have gives \<^verbatim>\<open>undefined\<close>.\<close>

definition js_get :: "jsobject \<Rightarrow> string \<Rightarrow> jsval" where
  "js_get obj name = (case obj name of None \<Rightarrow> JUndefined | Some v \<Rightarrow> v)"

text \<open>
  JavaScript's truthiness: \<^verbatim>\<open>undefined\<close>, \<^verbatim>\<open>null\<close>, \<^verbatim>\<open>false\<close>, \<^verbatim>\<open>0\<close> and
  \<^verbatim>\<open>""\<close> are falsy.
\<close>

fun truthy :: "jsval \<Rightarrow> bool" where
  "truthy JUndefined = False"
| "truthy JNull = False"
| "truthy (JBool b) = b"
| "truthy (JNum n) = (n \<noteq> 0)"
| "truthy (JStr s) = (s \<noteq> [])"

text \<open>\<^verbatim>\<open>a || b\<close> is \<^verbatim>\<open>a\<close> when \<^verbatim>\<open>a\<close> is truthy and \<^verbatim>\<open>b\<close> otherwise.\<close>

definition js_or :: "jsval \<Rightarrow> jsval \<Rightarrow> jsval" where
  "js_or a b = (if truthy a then a else b)"

section \<open>The document store and the platform\<close>

text \<open>
  What one invocation cannot control: whether the store refuses the write, which keys
  the store's client refuses when a reference is built from them, and the store's
  clock at the commit.
\<close>

datatype write_error = Unavailable | PermissionDenied | MalformedKey

record env =
  fault :: "write_error option"
  refused_keys :: "string set"
  commit_time :: nat

text \<open>
  What the platform observes of an invocation, in the order it happens: the write
  that \<^verbatim>\<open>set\<close> is called with, the store's answer, and the settling of the promise
  the handler returned.
\<close>

datatype event =
    WriteRequested "string \<times> string" document
  | WriteAcked string
  | WriteFailed write_error
  | HandlerResolved
  | HandlerRejected write_error

record world =
  docs :: "string \<rightharpoonup> document"
  trace :: "event list"

type_synonym 'a io = "world \<Rightarrow> (write_error + 'a) \<times> world"

definition emit :: "event \<Rightarrow> world \<Rightarrow> world" where
  "emit e w = w\<lparr>trace := trace w @ [e]\<rparr>"

text \<open>The events an invocation added to the trace.\<close>

definition new_events :: "world \<Rightarrow> world \<Rightarrow> event list" where
  "new_events w w' = drop (length (trace w)) (trace w')"

text \<open>\<^verbatim>\<open>db.collection(name)\<close> names a collection; nothing is sent.\<close>

definition collection :: "string \<Rightarrow> string" where
  "collection name = name"

definition document_path :: "string \<Rightarrow> string \<Rightarrow> string" where
  "document_path coll ident = coll @ ''/'' @ ident"

text \<open>\<^verbatim>\<open>admin.firestore.FieldValue.serverTimestamp()\<close>: an opaque sentinel.\<close>

definition serverTimestamp :: field_value where
  "serverTimestamp = ServerTimestampSentinel"

text \<open>
  Modelled from the spec: the document store (the Firestore client of
  \<^verbatim>\<open>firebase-admin\<close>, which is not among the sources). At the commit the store puts
  its own time in the place of every server-timestamp sentinel (glossary,
  "server-assigned timestamp").
\<close>

fun commit_value :: "nat \<Rightarrow> field_value \<Rightarrow> field_value" where
  "commit_value t ServerTimestampSentinel = Timestamp t"
| "commit_value t v = v"

definition commit_data :: "nat \<Rightarrow> document \<Rightarrow> document" where
  "commit_data t data = (\<lambda>name. map_option (commit_value t) (data name))"

text \<open>
  Modelled from the spec: the key of a document is a non-empty string (section 4.1,
  "identifier (required, non-empty)"); anything else is a malformed key.
\<close>

fun key_of :: "jsval \<Rightarrow> string option" where
  "key_of (JStr s) = (if s = [] then None else Some s)"
| "key_of v = None"

text \<open>
  Modelled from the spec: \<^verbatim>\<open>coll.doc(id)\<close> of the Firestore client, which is not
  among the sources. It builds the reference to the document and sends nothing; on a
  malformed key it throws instead (the "malformed key" of section 4.1, "Failure
  conditions"). A key that is not a non-empty string is malformed; which other keys
  the client refuses (one that does not name a document, say) is left to the
  environment. A thrown error is the result \<open>Inl\<close>.
\<close>

definition doc :: "env \<Rightarrow> string \<Rightarrow> jsval \<Rightarrow> write_error + string \<times> string" where
  "doc en coll ident =
     (case key_of ident of
        None \<Rightarrow> Inl MalformedKey
      | Some k \<Rightarrow> if k \<in> refused_keys en then Inl MalformedKey else Inr (coll, k))"

text \<open>
  Modelled from the spec: \<^verbatim>\<open>ref.set(data)\<close> of the Firestore client, which is not
  among the sources. It is a create-or-overwrite write of the whole document
  (section 4.1, "a set, not a partial update"), and it fails as a whole, leaving the
  documents as they were, when the store is unavailable, denies permission or
  rejects the key (section 4.1, "Failure conditions"). Its result is the state in
  which the promise it returns settles.
\<close>

definition set_doc :: "env \<Rightarrow> string \<times> string \<Rightarrow> document \<Rightarrow> unit io" where
  "set_doc en ref data w =
     (let w1 = emit (WriteRequested ref data) w in
      case fault en of
        Some e \<Rightarrow> (Inl e, emit (WriteFailed e) w1)
      | None \<Rightarrow>
          (Inr (),
           emit (WriteAcked (document_path (fst ref) (snd ref)))
             (w1\<lparr>docs := (docs w1)(document_path (fst ref) (snd ref) \<mapsto>
                             commit_data (commit_time en) data)\<rparr>)))"

text \<open>
  An \<^verbatim>\<open>async\<close> function whose body returns a promise: the promise of the function
  settles the way the returned promise settled, and after it. An error thrown in the
  body, or a rejection of the returned promise, rejects the promise of the function;
  there is no \<^verbatim>\<open>try\<close>/\<^verbatim>\<open>catch\<close>.
\<close>

definition async_return :: "unit io \<Rightarrow> unit io" where
  "async_return body w =
     (case body w of
        (Inl e, w') \<Rightarrow> (Inl e, emit (HandlerRejected e) w')
      | (Inr v, w') \<Rightarrow> (Inr v, emit HandlerResolved w'))"

section \<open>The handler\<close>

text \<open>
  \<^verbatim>\<open>
  exports.createUserProfile = functions.auth.user().onCreate(async (user) => {
    const db = admin.firestore();
    return db.collection("users").doc(user.uid).set({
      email: user.email || null,
      displayName: user.displayName || null,
      coin: 0,
      createdAt: admin.firestore.FieldValue.serverTimestamp(),
    });
  });
  \<close>
  The object literal is \<open>profile_data\<close>; the handler is \<open>createUserProfile\<close>. The
  body runs in the order of the source: \<^verbatim>\<open>doc(user.uid)\<close> is evaluated first, and
  when it throws neither the object literal is built nor \<^verbatim>\<open>set\<close> called.
\<close>

definition profile_data :: "jsobject \<Rightarrow> document" where
  "profile_data user =
     [''email'' \<mapsto> Plain (js_or (js_get user ''email'') JNull),
      ''displayName'' \<mapsto> Plain (js_or (js_get user ''displayName'') JNull),
      ''coin'' \<mapsto> Plain (JNum 0),
      ''createdAt'' \<mapsto> serverTimestamp]"

definition createUserProfile :: "env \<Rightarrow> jsobject \<Rightarrow> unit io" where
  "createUserProfile en user =
     async_return
       (\<lambda>w. case doc en (collection ''users'') (js_get user ''uid'') of
              Inl e \<Rightarrow> (Inl e, w)
            | Inr ref \<Rightarrow> set_doc en ref (profile_data user) w)"

section \<open>What one invocation does\<close>

text \<open>
  The three ways an invocation can go: the client refuses the key, the store refuses
  the write, the store commits it.
\<close>

lemma key_of_Some: "key_of v = Some k \<longleftrightarrow> v = JStr k \<and> k \<noteq> []"
  by (cases v) auto

lemma commit_profile_data:
  "commit_data t (profile_data user) =
     [''email'' \<mapsto> Plain (js_or (js_get user ''email'') JNull),
      ''displayName'' \<mapsto> Plain (js_or (js_get user ''displayName'') JNull),
      ''coin'' \<mapsto> Plain (JNum 0),
      ''createdAt'' \<mapsto> Timestamp t]"
  by (rule ext) (simp add: commit_data_def profile_data_def serverTimestamp_def)

lemma doc_accepts:
  "doc en coll v = Inr ref \<longleftrightarrow>
     (\<exists>k. key_of v = Some k \<and> k \<notin> refused_keys en \<and> ref = (coll, k))"
  by (auto simp: doc_def split: option.splits)

lemma createUserProfile_refused:
  assumes "doc en (collection ''users'') (js_get user ''uid'') = Inl e"
  shows "createUserProfile en user w = (Inl e, w\<lparr>trace := trace w @ [HandlerRejected e]\<rparr>)"
  using assms
  by (simp add: createUserProfile_def async_return_def emit_def)

lemma createUserProfile_fault:
  assumes "doc en (collection ''users'') (js_get user ''uid'') = Inr ref"
    and "fault en = Some e"
  shows "createUserProfile en user w =
    (Inl e,
     w\<lparr>trace := trace w @
        [WriteRequested ref (profile_data user), WriteFailed e, HandlerRejected e]\<rparr>)"
  using assms
  by (simp add: createUserProfile_def async_return_def set_doc_def emit_def Let_def)

lemma createUserProfile_ok:
  assumes "doc en (collection ''users'') (js_get user ''uid'') = Inr ref"
    and "fault en = None"
  shows "createUserProfile en user w =
    (Inr (),
     w\<lparr>docs := (docs w)(document_path (fst ref) (snd ref) \<mapsto>
                 commit_data (commit_time en) (profile_data user)),
       trace := trace w @
        [WriteRequested ref (profile_data user),
         WriteAcked (document_path (fst ref) (snd ref)), HandlerResolved]\<rparr>)"
  using assms
  by (simp add: createUserProfile_def async_return_def set_doc_def emit_def Let_def)

lemma createUserProfile_success:
  assumes "createUserProfile en user w = (Inr (), w')"
  shows "\<exists>k. key_of (js_get user ''uid'') = Some k \<and> k \<notin> refused_keys en \<and>
    fault en = None \<and>
    w' = w\<lparr>docs := (docs w)(document_path ''users'' k \<mapsto>
                 commit_data (commit_time en) (profile_data user)),
       trace := trace w @
        [WriteRequested (''users'', k) (profile_data user),
         WriteAcked (document_path ''users'' k), HandlerResolved]\<rparr>"
proof (cases "doc en (collection ''users'') (js_get user ''uid'')")
  case (Inl e)
  from createUserProfile_refused [OF Inl, of w] assms show ?thesis by simp
next
  case (Inr ref)
  then obtain k where k: "key_of (js_get user ''uid'') = Some k" "k \<notin> refused_keys en"
    and ref: "ref = (''users'', k)"
    by (auto simp: doc_accepts collection_def)
  show ?thesis
  proof (cases "fault en")
    case None
    from createUserProfile_ok [OF Inr None, of w] assms k None show ?thesis
      by (simp add: ref)
  next
    case (Some e)
    from createUserProfile_fault [OF Inr Some, of w] assms show ?thesis by simp
  qed
qed

lemma new_events_append: "new_events w (w\<lparr>docs := d, trace := trace w @ evs\<rparr>) = evs"
  by (simp add: new_events_def)

lemma new_events_append_trace: "new_events w (w\<lparr>trace := trace w @ evs\<rparr>) = evs"
  by (simp add: new_events_def)

section \<open>The properties of the specification\<close>

text \<open>
  C1. After an invocation that succeeded, the store holds a document at
  \<^verbatim>\<open>users/u\<close>, where \<open>u\<close> is the event's identifier, and that document has the four
  fields \<^verbatim>\<open>email\<close>, \<^verbatim>\<open>displayName\<close>, \<^verbatim>\<open>coin\<close> and \<^verbatim>\<open>createdAt\<close> and no other:
  \<^verbatim>\<open>coin\<close> is 0 and \<^verbatim>\<open>createdAt\<close> is the timestamp the store assigned at the commit.
\<close>

theorem C1_profile_document_created:
  assumes "createUserProfile en user w = (Inr (), w')"
  shows "\<exists>u d. js_get user ''uid'' = JStr u \<and> u \<noteq> [] \<and>
           docs w' (document_path ''users'' u) = Some d \<and>
           dom d = {''email'', ''displayName'', ''coin'', ''createdAt''} \<and>
           d ''email'' = Some (Plain (js_or (js_get user ''email'') JNull)) \<and>
           d ''displayName'' = Some (Plain (js_or (js_get user ''displayName'') JNull)) \<and>
           d ''coin'' = Some (Plain (JNum 0)) \<and>
           d ''createdAt'' = Some (Timestamp (commit_time en))"
proof -
  from createUserProfile_success [OF assms] obtain k where
    k: "key_of (js_get user ''uid'') = Some k" and
    w': "w' = w\<lparr>docs := (docs w)(document_path ''users'' k \<mapsto>
                 commit_data (commit_time en) (profile_data user)),
       trace := trace w @
        [WriteRequested (''users'', k) (profile_data user),
         WriteAcked (document_path ''users'' k), HandlerResolved]\<rparr>"
    by blast
  from k have u: "js_get user ''uid'' = JStr k" "k \<noteq> []"
    by (simp_all add: key_of_Some)
  let ?d = "commit_data (commit_time en) (profile_data user)"
  have stored: "docs w' (document_path ''users'' k) = Some ?d"
    by (simp add: w')
  have fields: "dom ?d = {''email'', ''displayName'', ''coin'', ''createdAt''}"
    by (auto simp: commit_profile_data)
  have vals: "?d ''email'' = Some (Plain (js_or (js_get user ''email'') JNull))"
    "?d ''displayName'' = Some (Plain (js_or (js_get user ''displayName'') JNull))"
    "?d ''coin'' = Some (Plain (JNum 0))"
    "?d ''createdAt'' = Some (Timestamp (commit_time en))"
    by (simp_all add: commit_profile_data)
  from u stored fields vals show ?thesis by blast
qed

theorem C1_profile_document_created_witness:
  "fst (createUserProfile \<lparr>fault = None, refused_keys = {}, commit_time = 7\<rparr>
          [''uid'' \<mapsto> JStr ''abc123'', ''email'' \<mapsto> JStr ''a@example.com'',
           ''displayName'' \<mapsto> JStr ''Ada'']
          \<lparr>docs = Map.empty, trace = []\<rparr>) = Inr () \<and>
   (\<exists>d. docs (snd (createUserProfile \<lparr>fault = None, refused_keys = {}, commit_time = 7\<rparr>
          [''uid'' \<mapsto> JStr ''abc123'', ''email'' \<mapsto> JStr ''a@example.com'',
           ''displayName'' \<mapsto> JStr ''Ada'']
          \<lparr>docs = Map.empty, trace = []\<rparr>)) ''users/abc123'' = Some d \<and>
        dom d = {''email'', ''displayName'', ''coin'', ''createdAt''} \<and>
        d ''email'' = Some (Plain (JStr ''a@example.com'')) \<and>
        d ''displayName'' = Some (Plain (JStr ''Ada'')) \<and>
        d ''coin'' = Some (Plain (JNum 0)) \<and>
        d ''createdAt'' = Some (Timestamp 7))"
proof -
  let ?en = "\<lparr>fault = None, refused_keys = {}, commit_time = 7\<rparr>"
  let ?user = "[''uid'' \<mapsto> JStr ''abc123'', ''email'' \<mapsto> JStr ''a@example.com'',
           ''displayName'' \<mapsto> JStr ''Ada'']"
  let ?w = "\<lparr>docs = Map.empty, trace = []\<rparr>"
  have ok: "fst (createUserProfile ?en ?user ?w) = Inr ()"
    by (simp add: createUserProfile_def async_return_def set_doc_def doc_def
        collection_def emit_def js_get_def)
  then have run: "createUserProfile ?en ?user ?w = (Inr (), snd (createUserProfile ?en ?user ?w))"
    by (simp add: prod_eq_iff)
  from C1_profile_document_created [OF run] ok show ?thesis
    by (simp add: js_get_def js_or_def document_path_def)
qed

text \<open>
  C2, as it stands, fails on an email that is present and empty: the stored email is
  \<^verbatim>\<open>null\<close>, not the given value.
\<close>

theorem C2_empty_email_counterexample:
  "js_get [''uid'' \<mapsto> JStr ''abc123'', ''email'' \<mapsto> JStr ''''] ''email'' = JStr '''' \<and>
   js_get [''uid'' \<mapsto> JStr ''abc123'', ''email'' \<mapsto> JStr ''''] ''displayName'' = JUndefined \<and>
   fst (createUserProfile \<lparr>fault = None, refused_keys = {}, commit_time = 7\<rparr>
          [''uid'' \<mapsto> JStr ''abc123'', ''email'' \<mapsto> JStr '''']
          \<lparr>docs = Map.empty, trace = []\<rparr>) = Inr () \<and>
   docs (snd (createUserProfile \<lparr>fault = None, refused_keys = {}, commit_time = 7\<rparr>
          [''uid'' \<mapsto> JStr ''abc123'', ''email'' \<mapsto> JStr '''']
          \<lparr>docs = Map.empty, trace = []\<rparr>)) ''users/abc123'' =
     Some [''email'' \<mapsto> Plain JNull, ''displayName'' \<mapsto> Plain JNull,
           ''coin'' \<mapsto> Plain (JNum 0), ''createdAt'' \<mapsto> Timestamp 7] \<and>
   Plain JNull \<noteq> Plain (JStr '''')"
proof -
  let ?en = "\<lparr>fault = None, refused_keys = {}, commit_time = 7\<rparr>"
  let ?user = "[''uid'' \<mapsto> JStr ''abc123'', ''email'' \<mapsto> JStr '''']"
  let ?w = "\<lparr>docs = Map.empty, trace = []\<rparr>"
  have k: "doc ?en (collection ''users'') (js_get ?user ''uid'') = Inr (''users'', ''abc123'')"
    by (simp add: doc_def collection_def js_get_def)
  have stored: "commit_data 7 (profile_data ?user) =
      [''email'' \<mapsto> Plain JNull, ''displayName'' \<mapsto> Plain JNull,
       ''coin'' \<mapsto> Plain (JNum 0), ''createdAt'' \<mapsto> Timestamp 7]"
    by (simp add: commit_profile_data js_get_def js_or_def)
  have run: "createUserProfile ?en ?user ?w =
      (Inr (),
       ?w\<lparr>docs := (docs ?w)(document_path ''users'' ''abc123'' \<mapsto>
                 commit_data (commit_time ?en) (profile_data ?user)),
         trace := trace ?w @
          [WriteRequested (''users'', ''abc123'') (profile_data ?user),
           WriteAcked (document_path ''users'' ''abc123''), HandlerResolved]\<rparr>)"
    using createUserProfile_ok [OF k, of ?w] by simp
  have "docs (snd (createUserProfile ?en ?user ?w)) ''users/abc123'' =
      Some (commit_data 7 (profile_data ?user))"
    unfolding run by (simp add: document_path_def)
  with stored run show ?thesis
    by (simp add: js_get_def)
qed

text \<open>
  C2, amended. After an invocation that succeeded: when the event's email is a
  non-empty string and its display name is absent (missing or \<^verbatim>\<open>null\<close>), the stored
  email is that string and the stored display name is an explicit \<^verbatim>\<open>null\<close>; when
  both are absent, both stored fields are an explicit \<^verbatim>\<open>null\<close>, present in the
  document, and \<^verbatim>\<open>coin\<close> is 0.
\<close>

theorem C2_absent_fields_stored_as_null:
  assumes "createUserProfile en user w = (Inr (), w')"
    and "js_get user ''uid'' = JStr u"
  shows "\<exists>d. docs w' (document_path ''users'' u) = Some d \<and>
    (\<forall>e. js_get user ''email'' = JStr e \<and> e \<noteq> [] \<and>
          js_get user ''displayName'' \<in> {JUndefined, JNull} \<longrightarrow>
          d ''email'' = Some (Plain (JStr e)) \<and> d ''displayName'' = Some (Plain JNull)) \<and>
    (js_get user ''email'' \<in> {JUndefined, JNull} \<and>
     js_get user ''displayName'' \<in> {JUndefined, JNull} \<longrightarrow>
          d ''email'' = Some (Plain JNull) \<and> d ''displayName'' = Some (Plain JNull) \<and>
          d ''coin'' = Some (Plain (JNum 0)))"
proof -
  from createUserProfile_success [OF assms(1)] obtain k where
    k: "key_of (js_get user ''uid'') = Some k" and
    w': "w' = w\<lparr>docs := (docs w)(document_path ''users'' k \<mapsto>
                 commit_data (commit_time en) (profile_data user)),
       trace := trace w @
        [WriteRequested (''users'', k) (profile_data user),
         WriteAcked (document_path ''users'' k), HandlerResolved]\<rparr>"
    by blast
  from k assms(2) have "k = u" by (simp split: if_splits)
  then have "docs w' (document_path ''users'' u) =
      Some (commit_data (commit_time en) (profile_data user))"
    by (simp add: w')
  then show ?thesis
    by (auto simp: commit_profile_data js_or_def)
qed

theorem C2_absent_fields_stored_as_null_witness:
  "fst (createUserProfile \<lparr>fault = None, refused_keys = {}, commit_time = 7\<rparr>
          [''uid'' \<mapsto> JStr ''abc123'', ''email'' \<mapsto> JStr ''a@example.com'']
          \<lparr>docs = Map.empty, trace = []\<rparr>) = Inr () \<and>
   js_get [''uid'' \<mapsto> JStr ''abc123'', ''email'' \<mapsto> JStr ''a@example.com''] ''email'' =
     JStr ''a@example.com'' \<and>
   js_get [''uid'' \<mapsto> JStr ''abc123'', ''email'' \<mapsto> JStr ''a@example.com''] ''displayName'' =
     JUndefined \<and>
   (\<exists>d. docs (snd (createUserProfile \<lparr>fault = None, refused_keys = {}, commit_time = 7\<rparr>
          [''uid'' \<mapsto> JStr ''abc123'', ''email'' \<mapsto> JStr ''a@example.com'']
          \<lparr>docs = Map.empty, trace = []\<rparr>)) ''users/abc123'' = Some d \<and>
        d ''email'' = Some (Plain (JStr ''a@example.com'')) \<and>
        d ''displayName'' = Some (Plain JNull)) \<and>
   fst (createUserProfile \<lparr>fault = None, refused_keys = {}, commit_time = 8\<rparr>
          [''uid'' \<mapsto> JStr ''xyz789'', ''email'' \<mapsto> JNull, ''displayName'' \<mapsto> JNull]
          \<lparr>docs = Map.empty, trace = []\<rparr>) = Inr () \<and>
   (\<exists>d. docs (snd (createUserProfile \<lparr>fault = None, refused_keys = {}, commit_time = 8\<rparr>
          [''uid'' \<mapsto> JStr ''xyz789'', ''email'' \<mapsto> JNull, ''displayName'' \<mapsto> JNull]
          \<lparr>docs = Map.empty, trace = []\<rparr>)) ''users/xyz789'' = Some d \<and>
        d ''email'' = Some (Plain JNull) \<and> d ''displayName'' = Some (Plain JNull) \<and>
        d ''coin'' = Some (Plain (JNum 0)))"
proof -
  let ?w = "\<lparr>docs = Map.empty, trace = []\<rparr>"
  let ?en1 = "\<lparr>fault = None, refused_keys = {}, commit_time = 7\<rparr>"
  let ?user1 = "[''uid'' \<mapsto> JStr ''abc123'', ''email'' \<mapsto> JStr ''a@example.com'']"
  let ?en2 = "\<lparr>fault = None, refused_keys = {}, commit_time = 8\<rparr>"
  let ?user2 = "[''uid'' \<mapsto> JStr ''xyz789'', ''email'' \<mapsto> JNull, ''displayName'' \<mapsto> JNull]"
  have ok1: "fst (createUserProfile ?en1 ?user1 ?w) = Inr ()"
    by (simp add: createUserProfile_def async_return_def set_doc_def doc_def
        collection_def emit_def js_get_def)
  then have run1: "createUserProfile ?en1 ?user1 ?w =
      (Inr (), snd (createUserProfile ?en1 ?user1 ?w))"
    by (simp add: prod_eq_iff)
  have uid1: "js_get ?user1 ''uid'' = JStr ''abc123''"
    by (simp add: js_get_def)
  have ok2: "fst (createUserProfile ?en2 ?user2 ?w) = Inr ()"
    by (simp add: createUserProfile_def async_return_def set_doc_def doc_def
        collection_def emit_def js_get_def)
  then have run2: "createUserProfile ?en2 ?user2 ?w =
      (Inr (), snd (createUserProfile ?en2 ?user2 ?w))"
    by (simp add: prod_eq_iff)
  have uid2: "js_get ?user2 ''uid'' = JStr ''xyz789''"
    by (simp add: js_get_def)
  from C2_absent_fields_stored_as_null [OF run1 uid1]
    C2_absent_fields_stored_as_null [OF run2 uid2] ok1 ok2
  show ?thesis
    by (simp add: js_get_def document_path_def)
qed

text \<open>
  C3. The handler's result is the result of the write: of \<^verbatim>\<open>doc\<close> when the client
  refuses the key, which the specification counts among the failures of the write, and
  of \<^verbatim>\<open>set\<close> otherwise. It is a failure exactly when the write failed, with the
  write's own error, and then the handler's promise is rejected and never resolved; it
  is a success exactly when the promise is resolved.
\<close>

theorem C3_write_failure_propagates:
  "fst (createUserProfile en user w) =
     (case doc en (collection ''users'') (js_get user ''uid'') of
        Inl e' \<Rightarrow> Inl e'
      | Inr ref \<Rightarrow> fst (set_doc en ref (profile_data user) w)) \<and>
   (fst (createUserProfile en user w) = Inl e \<longleftrightarrow>
      doc en (collection ''users'') (js_get user ''uid'') = Inl e \<or>
      WriteFailed e \<in> set (new_events w (snd (createUserProfile en user w)))) \<and>
   (fst (createUserProfile en user w) = Inl e \<longleftrightarrow>
      HandlerRejected e \<in> set (new_events w (snd (createUserProfile en user w)))) \<and>
   (fst (createUserProfile en user w) = Inr () \<longleftrightarrow>
      HandlerResolved \<in> set (new_events w (snd (createUserProfile en user w))))"
proof (cases "doc en (collection ''users'') (js_get user ''uid'')")
  case (Inl e')
  then show ?thesis
    by (auto simp: createUserProfile_refused [OF Inl] new_events_append_trace)
next
  case (Inr ref)
  note key = this
  show ?thesis
  proof (cases "fault en")
    case None
    have "fst (set_doc en ref (profile_data user) w) = Inr ()"
      using None by (simp add: set_doc_def Let_def)
    with key show ?thesis
      by (auto simp: createUserProfile_ok [OF key None] new_events_append)
  next
    case (Some e')
    have "fst (set_doc en ref (profile_data user) w) = Inl e'"
      using Some by (simp add: set_doc_def Let_def)
    with key show ?thesis
      by (auto simp: createUserProfile_fault [OF key Some] new_events_append_trace)
  qed
qed

text \<open>
  C4. Two successful invocations in a row, for events with the same identifier, email
  and display name: the second adds no document, the document at the key has
  \<^verbatim>\<open>coin\<close> 0 after each, the two write requests are the same, and the two stored
  documents agree on every field but \<^verbatim>\<open>createdAt\<close>, which holds the commit time of
  each write.
\<close>

theorem C4_idempotent_up_to_timestamp:
  assumes "createUserProfile en1 user1 w = (Inr (), w1)"
    and "createUserProfile en2 user2 w1 = (Inr (), w2)"
    and "js_get user1 ''uid'' = JStr u"
    and "js_get user2 ''uid'' = js_get user1 ''uid''"
    and "js_get user2 ''email'' = js_get user1 ''email''"
    and "js_get user2 ''displayName'' = js_get user1 ''displayName''"
  shows "\<exists>d1 d2.
      docs w1 (document_path ''users'' u) = Some d1 \<and>
      docs w2 (document_path ''users'' u) = Some d2 \<and>
      dom (docs w2) = dom (docs w1) \<and>
      d1 ''coin'' = Some (Plain (JNum 0)) \<and> d2 ''coin'' = Some (Plain (JNum 0)) \<and>
      (\<forall>name. name \<noteq> ''createdAt'' \<longrightarrow> d1 name = d2 name) \<and>
      d1 ''createdAt'' = Some (Timestamp (commit_time en1)) \<and>
      d2 ''createdAt'' = Some (Timestamp (commit_time en2)) \<and>
      profile_data user1 = profile_data user2"
proof -
  from createUserProfile_success [OF assms(1)] obtain k1 where
    k1: "key_of (js_get user1 ''uid'') = Some k1" and
    w1: "w1 = w\<lparr>docs := (docs w)(document_path ''users'' k1 \<mapsto>
                 commit_data (commit_time en1) (profile_data user1)),
       trace := trace w @
        [WriteRequested (''users'', k1) (profile_data user1),
         WriteAcked (document_path ''users'' k1), HandlerResolved]\<rparr>"
    by blast
  from createUserProfile_success [OF assms(2)] obtain k2 where
    k2: "key_of (js_get user2 ''uid'') = Some k2" and
    w2: "w2 = w1\<lparr>docs := (docs w1)(document_path ''users'' k2 \<mapsto>
                 commit_data (commit_time en2) (profile_data user2)),
       trace := trace w1 @
        [WriteRequested (''users'', k2) (profile_data user2),
         WriteAcked (document_path ''users'' k2), HandlerResolved]\<rparr>"
    by blast
  from k1 assms(3) have [simp]: "k1 = u" by (simp split: if_splits)
  from k2 assms(3,4) have [simp]: "k2 = u" by (simp split: if_splits)
  have same: "profile_data user1 = profile_data user2"
    using assms(5,6) by (simp add: profile_data_def)
  have d1: "docs w1 (document_path ''users'' u) =
      Some (commit_data (commit_time en1) (profile_data user1))"
    by (simp add: w1)
  have d2: "docs w2 (document_path ''users'' u) =
      Some (commit_data (commit_time en2) (profile_data user1))"
    by (simp add: w2 same)
  have doms: "dom (docs w2) = dom (docs w1)"
    by (auto simp: w2 w1)
  have agree: "\<forall>name. name \<noteq> ''createdAt'' \<longrightarrow>
      commit_data (commit_time en1) (profile_data user1) name =
      commit_data (commit_time en2) (profile_data user1) name"
    by (simp add: commit_profile_data)
  have vals: "commit_data (commit_time en1) (profile_data user1) ''coin'' = Some (Plain (JNum 0))"
    "commit_data (commit_time en2) (profile_data user1) ''coin'' = Some (Plain (JNum 0))"
    "commit_data (commit_time en1) (profile_data user1) ''createdAt'' =
       Some (Timestamp (commit_time en1))"
    "commit_data (commit_time en2) (profile_data user1) ''createdAt'' =
       Some (Timestamp (commit_time en2))"
    by (simp_all add: commit_profile_data)
  from d1 d2 doms agree vals same show ?thesis by blast
qed

theorem C4_idempotent_up_to_timestamp_witness:
  "fst (createUserProfile \<lparr>fault = None, refused_keys = {}, commit_time = 7\<rparr>
          [''uid'' \<mapsto> JStr ''abc123'', ''email'' \<mapsto> JStr ''a@example.com'',
           ''displayName'' \<mapsto> JStr ''Ada'']
          \<lparr>docs = Map.empty, trace = []\<rparr>) = Inr () \<and>
   fst (createUserProfile \<lparr>fault = None, refused_keys = {}, commit_time = 9\<rparr>
          [''uid'' \<mapsto> JStr ''abc123'', ''email'' \<mapsto> JStr ''a@example.com'',
           ''displayName'' \<mapsto> JStr ''Ada'']
          (snd (createUserProfile \<lparr>fault = None, refused_keys = {}, commit_time = 7\<rparr>
             [''uid'' \<mapsto> JStr ''abc123'', ''email'' \<mapsto> JStr ''a@example.com'',
              ''displayName'' \<mapsto> JStr ''Ada'']
             \<lparr>docs = Map.empty, trace = []\<rparr>))) = Inr () \<and>
   (\<exists>d1 d2.
      docs (snd (createUserProfile \<lparr>fault = None, refused_keys = {}, commit_time = 7\<rparr>
             [''uid'' \<mapsto> JStr ''abc123'', ''email'' \<mapsto> JStr ''a@example.com'',
              ''displayName'' \<mapsto> JStr ''Ada'']
             \<lparr>docs = Map.empty, trace = []\<rparr>)) ''users/abc123'' = Some d1 \<and>
      docs (snd (createUserProfile \<lparr>fault = None, refused_keys = {}, commit_time = 9\<rparr>
          [''uid'' \<mapsto> JStr ''abc123'', ''email'' \<mapsto> JStr ''a@example.com'',
           ''displayName'' \<mapsto> JStr ''Ada'']
          (snd (createUserProfile \<lparr>fault = None, refused_keys = {}, commit_time = 7\<rparr>
             [''uid'' \<mapsto> JStr ''abc123'', ''email'' \<mapsto> JStr ''a@example.com'',
              ''displayName'' \<mapsto> JStr ''Ada'']
             \<lparr>docs = Map.empty, trace = []\<rparr>)))) ''users/abc123'' = Some d2 \<and>
      d1 ''coin'' = Some (Plain (JNum 0)) \<and> d2 ''coin'' = Some (Plain (JNum 0)) \<and>
      d1 ''email'' = d2 ''email'' \<and> d1 ''displayName'' = d2 ''displayName'' \<and>
      d1 ''createdAt'' = Some (Timestamp 7) \<and> d2 ''createdAt'' = Some (Timestamp 9))"
proof -
  let ?en1 = "\<lparr>fault = None, refused_keys = {}, commit_time = 7\<rparr>"
  let ?en2 = "\<lparr>fault = None, refused_keys = {}, commit_time = 9\<rparr>"
  let ?user = "[''uid'' \<mapsto> JStr ''abc123'', ''email'' \<mapsto> JStr ''a@example.com'',
           ''displayName'' \<mapsto> JStr ''Ada'']"
  let ?w = "\<lparr>docs = Map.empty, trace = []\<rparr>"
  let ?w1 = "snd (createUserProfile ?en1 ?user ?w)"
  let ?w2 = "snd (createUserProfile ?en2 ?user ?w1)"
  have ok1: "fst (createUserProfile ?en1 ?user ?w) = Inr ()"
    by (simp add: createUserProfile_def async_return_def set_doc_def doc_def
        collection_def emit_def js_get_def)
  then have run1: "createUserProfile ?en1 ?user ?w = (Inr (), ?w1)"
    by (simp add: prod_eq_iff)
  have ok2: "fst (createUserProfile ?en2 ?user ?w1) = Inr ()"
    by (simp add: createUserProfile_def async_return_def set_doc_def doc_def
        collection_def emit_def js_get_def Let_def split: prod.splits)
  then have run2: "createUserProfile ?en2 ?user ?w1 = (Inr (), ?w2)"
    by (simp add: prod_eq_iff)
  have uid: "js_get ?user ''uid'' = JStr ''abc123''"
    by (simp add: js_get_def)
  from C4_idempotent_up_to_timestamp [OF run1 run2 uid refl refl refl]
  obtain d1 d2 where
    "docs ?w1 (document_path ''users'' ''abc123'') = Some d1"
    "docs ?w2 (document_path ''users'' ''abc123'') = Some d2"
    "d1 ''coin'' = Some (Plain (JNum 0))" "d2 ''coin'' = Some (Plain (JNum 0))"
    "\<forall>name. name \<noteq> ''createdAt'' \<longrightarrow> d1 name = d2 name"
    "d1 ''createdAt'' = Some (Timestamp (commit_time ?en1))"
    "d2 ''createdAt'' = Some (Timestamp (commit_time ?en2))"
    by blast
  then have "docs ?w1 ''users/abc123'' = Some d1 \<and> docs ?w2 ''users/abc123'' = Some d2 \<and>
      d1 ''coin'' = Some (Plain (JNum 0)) \<and> d2 ''coin'' = Some (Plain (JNum 0)) \<and>
      d1 ''email'' = d2 ''email'' \<and> d1 ''displayName'' = d2 ''displayName'' \<and>
      d1 ''createdAt'' = Some (Timestamp 7) \<and> d2 ''createdAt'' = Some (Timestamp 9)"
    by (simp add: document_path_def)
  with ok1 ok2 show ?thesis by blast
qed

text \<open>
  C5. The write is a set of the whole document: whatever the store held at the key
  before, after an invocation that succeeded the document at the key is the default
  record built from the event, with \<^verbatim>\<open>coin\<close> 0 and nothing kept from the old document,
  and every other document is as it was.
\<close>

theorem C5_set_overwrites_document:
  assumes "createUserProfile en user w = (Inr (), w')"
    and "js_get user ''uid'' = JStr u"
  shows "docs w' (document_path ''users'' u) =
      Some [''email'' \<mapsto> Plain (js_or (js_get user ''email'') JNull),
            ''displayName'' \<mapsto> Plain (js_or (js_get user ''displayName'') JNull),
            ''coin'' \<mapsto> Plain (JNum 0),
            ''createdAt'' \<mapsto> Timestamp (commit_time en)] \<and>
    docs w' (document_path ''users'' u) =
      Some (commit_data (commit_time en) (profile_data user)) \<and>
    (\<forall>p. p \<noteq> document_path ''users'' u \<longrightarrow> docs w' p = docs w p)"
proof -
  from createUserProfile_success [OF assms(1)] obtain k where
    k: "key_of (js_get user ''uid'') = Some k" and
    w': "w' = w\<lparr>docs := (docs w)(document_path ''users'' k \<mapsto>
                 commit_data (commit_time en) (profile_data user)),
       trace := trace w @
        [WriteRequested (''users'', k) (profile_data user),
         WriteAcked (document_path ''users'' k), HandlerResolved]\<rparr>"
    by blast
  from k assms(2) have "k = u" by (simp split: if_splits)
  then show ?thesis
    by (simp add: w' commit_profile_data)
qed

theorem C5_set_overwrites_document_witness:
  "fst (createUserProfile \<lparr>fault = None, refused_keys = {}, commit_time = 7\<rparr>
          [''uid'' \<mapsto> JStr ''abc123'', ''email'' \<mapsto> JStr ''a@example.com'',
           ''displayName'' \<mapsto> JStr ''Ada'']
          \<lparr>docs = [''users/abc123'' \<mapsto> [''coin'' \<mapsto> Plain (JNum 5), ''level'' \<mapsto> Plain (JNum 2)],
                   ''users/other'' \<mapsto> [''coin'' \<mapsto> Plain (JNum 3)]],
            trace = []\<rparr>) = Inr () \<and>
   docs (snd (createUserProfile \<lparr>fault = None, refused_keys = {}, commit_time = 7\<rparr>
          [''uid'' \<mapsto> JStr ''abc123'', ''email'' \<mapsto> JStr ''a@example.com'',
           ''displayName'' \<mapsto> JStr ''Ada'']
          \<lparr>docs = [''users/abc123'' \<mapsto> [''coin'' \<mapsto> Plain (JNum 5), ''level'' \<mapsto> Plain (JNum 2)],
                   ''users/other'' \<mapsto> [''coin'' \<mapsto> Plain (JNum 3)]],
            trace = []\<rparr>)) ''users/abc123'' =
     Some [''email'' \<mapsto> Plain (JStr ''a@example.com''),
           ''displayName'' \<mapsto> Plain (JStr ''Ada''),
           ''coin'' \<mapsto> Plain (JNum 0),
           ''createdAt'' \<mapsto> Timestamp 7] \<and>
   docs (snd (createUserProfile \<lparr>fault = None, refused_keys = {}, commit_time = 7\<rparr>
          [''uid'' \<mapsto> JStr ''abc123'', ''email'' \<mapsto> JStr ''a@example.com'',
           ''displayName'' \<mapsto> JStr ''Ada'']
          \<lparr>docs = [''users/abc123'' \<mapsto> [''coin'' \<mapsto> Plain (JNum 5), ''level'' \<mapsto> Plain (JNum 2)],
                   ''users/other'' \<mapsto> [''coin'' \<mapsto> Plain (JNum 3)]],
            trace = []\<rparr>)) ''users/other'' =
     Some [''coin'' \<mapsto> Plain (JNum 3)]"
proof -
  let ?en = "\<lparr>fault = None, refused_keys = {}, commit_time = 7\<rparr>"
  let ?user = "[''uid'' \<mapsto> JStr ''abc123'', ''email'' \<mapsto> JStr ''a@example.com'',
           ''displayName'' \<mapsto> JStr ''Ada'']"
  let ?w = "\<lparr>docs = [''users/abc123'' \<mapsto> [''coin'' \<mapsto> Plain (JNum 5), ''level'' \<mapsto> Plain (JNum 2)],
                   ''users/other'' \<mapsto> [''coin'' \<mapsto> Plain (JNum 3)]],
            trace = []\<rparr>"
  have ok: "fst (createUserProfile ?en ?user ?w) = Inr ()"
    by (simp add: createUserProfile_def async_return_def set_doc_def doc_def
        collection_def emit_def js_get_def)
  then have run: "createUserProfile ?en ?user ?w = (Inr (), snd (createUserProfile ?en ?user ?w))"
    by (simp add: prod_eq_iff)
  have uid: "js_get ?user ''uid'' = JStr ''abc123''"
    by (simp add: js_get_def)
  have other: "''users/other'' \<noteq> document_path ''users'' ''abc123''"
    by (simp add: document_path_def)
  from C5_set_overwrites_document [OF run uid] have
    a: "docs (snd (createUserProfile ?en ?user ?w)) (document_path ''users'' ''abc123'') =
      Some [''email'' \<mapsto> Plain (js_or (js_get ?user ''email'') JNull),
            ''displayName'' \<mapsto> Plain (js_or (js_get ?user ''displayName'') JNull),
            ''coin'' \<mapsto> Plain (JNum 0),
            ''createdAt'' \<mapsto> Timestamp (commit_time ?en)]" and
    b: "\<forall>p. p \<noteq> document_path ''users'' ''abc123'' \<longrightarrow>
          docs (snd (createUserProfile ?en ?user ?w)) p = docs ?w p"
    by blast+
  from b other have c: "docs (snd (createUserProfile ?en ?user ?w)) ''users/other'' =
      docs ?w ''users/other''"
    by blast
  have d: "js_or (js_get ?user ''email'') JNull = JStr ''a@example.com''"
    "js_or (js_get ?user ''displayName'') JNull = JStr ''Ada''"
    by (simp_all add: js_get_def js_or_def)
  have e: "document_path ''users'' ''abc123'' = ''users/abc123''"
    by (simp add: document_path_def)
  from a c ok show ?thesis
    unfolding d e by simp
qed

text \<open>
  C6. In every write request of an invocation the payload is \<open>profile_data\<close> of the
  event, and its \<^verbatim>\<open>createdAt\<close> field is the store's server-timestamp sentinel: it is
  never a timestamp value nor any other value, and it does not depend on the time of
  the commit. Whenever the client accepts the key, that request is the first event of
  the invocation.
\<close>

theorem C6_createdAt_is_server_sentinel:
  "(\<forall>ref data. WriteRequested ref data \<in> set (new_events w (snd (createUserProfile en user w))) \<longrightarrow>
      data = profile_data user \<and> data ''createdAt'' = Some serverTimestamp) \<and>
   (\<forall>ref. doc en (collection ''users'') (js_get user ''uid'') = Inr ref \<longrightarrow>
      (\<exists>rest. new_events w (snd (createUserProfile en user w)) =
         WriteRequested ref (profile_data user) # rest)) \<and>
   profile_data user ''createdAt'' = Some serverTimestamp \<and>
   serverTimestamp = ServerTimestampSentinel \<and>
   (\<forall>t. profile_data user ''createdAt'' \<noteq> Some (Timestamp t)) \<and>
   (\<forall>v. profile_data user ''createdAt'' \<noteq> Some (Plain v))"
proof -
  have sentinel: "profile_data user ''createdAt'' = Some serverTimestamp"
    by (simp add: profile_data_def)
  have both: "(\<forall>ref data.
      WriteRequested ref data \<in> set (new_events w (snd (createUserProfile en user w))) \<longrightarrow>
      data = profile_data user) \<and>
    (\<forall>ref. doc en (collection ''users'') (js_get user ''uid'') = Inr ref \<longrightarrow>
      (\<exists>rest. new_events w (snd (createUserProfile en user w)) =
         WriteRequested ref (profile_data user) # rest))"
  proof (cases "doc en (collection ''users'') (js_get user ''uid'')")
    case (Inl e)
    show ?thesis
      by (simp add: createUserProfile_refused [OF Inl] new_events_append_trace Inl)
  next
    case (Inr ref)
    note key = this
    show ?thesis
    proof (cases "fault en")
      case None
      show ?thesis
        by (simp add: createUserProfile_ok [OF key None] new_events_append key)
    next
      case (Some e)
      show ?thesis
        by (simp add: createUserProfile_fault [OF key Some] new_events_append_trace key)
    qed
  qed
  from both sentinel have "\<forall>ref data.
      WriteRequested ref data \<in> set (new_events w (snd (createUserProfile en user w))) \<longrightarrow>
      data = profile_data user \<and> data ''createdAt'' = Some serverTimestamp"
    by blast
  moreover have "serverTimestamp = ServerTimestampSentinel"
    "\<forall>t. profile_data user ''createdAt'' \<noteq> Some (Timestamp t)"
    "\<forall>v. profile_data user ''createdAt'' \<noteq> Some (Plain v)"
    by (simp_all add: profile_data_def serverTimestamp_def)
  ultimately show ?thesis
    using both sentinel by blast
qed

theorem C6_createdAt_is_server_sentinel_witness:
  "doc \<lparr>fault = None, refused_keys = {}, commit_time = 7\<rparr> (collection ''users'') (js_get [''uid'' \<mapsto> JStr ''abc123'', ''email'' \<mapsto> JStr ''a@example.com'',
       ''displayName'' \<mapsto> JStr ''Ada''] ''uid'') = Inr (''users'', ''abc123'') \<and>
   WriteRequested (''users'', ''abc123'') (profile_data [''uid'' \<mapsto> JStr ''abc123'', ''email'' \<mapsto> JStr ''a@example.com'',
       ''displayName'' \<mapsto> JStr ''Ada''])
     \<in> set (new_events \<lparr>docs = Map.empty, trace = []\<rparr> (snd (createUserProfile \<lparr>fault = None, refused_keys = {}, commit_time = 7\<rparr> [''uid'' \<mapsto> JStr ''abc123'', ''email'' \<mapsto> JStr ''a@example.com'',
       ''displayName'' \<mapsto> JStr ''Ada''] \<lparr>docs = Map.empty, trace = []\<rparr>))) \<and>
   (\<exists>rest. new_events \<lparr>docs = Map.empty, trace = []\<rparr> (snd (createUserProfile \<lparr>fault = None, refused_keys = {}, commit_time = 7\<rparr> [''uid'' \<mapsto> JStr ''abc123'', ''email'' \<mapsto> JStr ''a@example.com'',
       ''displayName'' \<mapsto> JStr ''Ada''] \<lparr>docs = Map.empty, trace = []\<rparr>)) =
      WriteRequested (''users'', ''abc123'') (profile_data [''uid'' \<mapsto> JStr ''abc123'', ''email'' \<mapsto> JStr ''a@example.com'',
       ''displayName'' \<mapsto> JStr ''Ada'']) # rest) \<and>
   profile_data [''uid'' \<mapsto> JStr ''abc123'', ''email'' \<mapsto> JStr ''a@example.com'',
       ''displayName'' \<mapsto> JStr ''Ada''] ''createdAt'' = Some ServerTimestampSentinel"
proof -
  have k: "doc \<lparr>fault = None, refused_keys = {}, commit_time = 7\<rparr> (collection ''users'') (js_get [''uid'' \<mapsto> JStr ''abc123'', ''email'' \<mapsto> JStr ''a@example.com'',
       ''displayName'' \<mapsto> JStr ''Ada''] ''uid'') = Inr (''users'', ''abc123'')"
    by (simp add: doc_def collection_def js_get_def)
  have evs: "new_events \<lparr>docs = Map.empty, trace = []\<rparr> (snd (createUserProfile \<lparr>fault = None, refused_keys = {}, commit_time = 7\<rparr> [''uid'' \<mapsto> JStr ''abc123'', ''email'' \<mapsto> JStr ''a@example.com'',
       ''displayName'' \<mapsto> JStr ''Ada''] \<lparr>docs = Map.empty, trace = []\<rparr>)) =
     [WriteRequested (''users'', ''abc123'') (profile_data [''uid'' \<mapsto> JStr ''abc123'', ''email'' \<mapsto> JStr ''a@example.com'',
       ''displayName'' \<mapsto> JStr ''Ada'']),
      WriteAcked ''users/abc123'', HandlerResolved]"
    using createUserProfile_ok [OF k, of "\<lparr>docs = Map.empty, trace = []\<rparr>"]
    by (simp add: new_events_def document_path_def)
  then have req: "WriteRequested (''users'', ''abc123'') (profile_data [''uid'' \<mapsto> JStr ''abc123'', ''email'' \<mapsto> JStr ''a@example.com'',
       ''displayName'' \<mapsto> JStr ''Ada''])
      \<in> set (new_events \<lparr>docs = Map.empty, trace = []\<rparr> (snd (createUserProfile \<lparr>fault = None, refused_keys = {}, commit_time = 7\<rparr> [''uid'' \<mapsto> JStr ''abc123'', ''email'' \<mapsto> JStr ''a@example.com'',
       ''displayName'' \<mapsto> JStr ''Ada''] \<lparr>docs = Map.empty, trace = []\<rparr>)))"
    by simp
  note all = C6_createdAt_is_server_sentinel [of "\<lparr>docs = Map.empty, trace = []\<rparr>" "\<lparr>fault = None, refused_keys = {}, commit_time = 7\<rparr>" "[''uid'' \<mapsto> JStr ''abc123'', ''email'' \<mapsto> JStr ''a@example.com'',
       ''displayName'' \<mapsto> JStr ''Ada'']"]
  from all [THEN conjunct1] req
  have "profile_data [''uid'' \<mapsto> JStr ''abc123'', ''email'' \<mapsto> JStr ''a@example.com'',
       ''displayName'' \<mapsto> JStr ''Ada''] ''createdAt'' = Some serverTimestamp"
    by blast
  moreover from all [THEN conjunct2, THEN conjunct2, THEN conjunct2, THEN conjunct1]
  have "serverTimestamp = ServerTimestampSentinel" .
  ultimately have sentinel: "profile_data [''uid'' \<mapsto> JStr ''abc123'', ''email'' \<mapsto> JStr ''a@example.com'',
       ''displayName'' \<mapsto> JStr ''Ada''] ''createdAt'' = Some ServerTimestampSentinel"
    by (rule trans [OF _ arg_cong [of _ _ Some]])
  from all [THEN conjunct2, THEN conjunct1] k
  have "\<exists>rest. new_events \<lparr>docs = Map.empty, trace = []\<rparr> (snd (createUserProfile \<lparr>fault = None, refused_keys = {}, commit_time = 7\<rparr> [''uid'' \<mapsto> JStr ''abc123'', ''email'' \<mapsto> JStr ''a@example.com'',
       ''displayName'' \<mapsto> JStr ''Ada''] \<lparr>docs = Map.empty, trace = []\<rparr>)) =
      WriteRequested (''users'', ''abc123'') (profile_data [''uid'' \<mapsto> JStr ''abc123'', ''email'' \<mapsto> JStr ''a@example.com'',
       ''displayName'' \<mapsto> JStr ''Ada'']) # rest"
    by blast
  with k req sentinel show ?thesis
    by blast
qed

text \<open>
  C7. Wherever the resolution of the handler's promise stands among the events of an
  invocation, the store's acknowledgement of the write to \<^verbatim>\<open>users/u\<close> stands before
  it, the document is in the store, and nothing follows the resolution.
\<close>

theorem C7_resolves_after_write_acknowledged:
  assumes "new_events w (snd (createUserProfile en user w)) = pre @ HandlerResolved # post"
  shows "\<exists>u. js_get user ''uid'' = JStr u \<and>
      pre = [WriteRequested (''users'', u) (profile_data user),
             WriteAcked (document_path ''users'' u)] \<and>
      post = [] \<and>
      docs (snd (createUserProfile en user w)) (document_path ''users'' u) =
        Some (commit_data (commit_time en) (profile_data user)) \<and>
      fst (createUserProfile en user w) = Inr ()"
proof (cases "doc en (collection ''users'') (js_get user ''uid'')")
  case (Inl e)
  from assms show ?thesis
    by (simp add: createUserProfile_refused [OF Inl] new_events_append_trace
        Cons_eq_append_conv)
next
  case (Inr ref)
  note key = this
  show ?thesis
  proof (cases "fault en")
    case None
    from key obtain k where u: "js_get user ''uid'' = JStr k" and ref: "ref = (''users'', k)"
      by (auto simp: doc_accepts key_of_Some collection_def)
    from assms have "pre = [WriteRequested (''users'', k) (profile_data user),
             WriteAcked (document_path ''users'' k)] \<and> post = []"
      by (auto simp: createUserProfile_ok [OF key None] new_events_append
          Cons_eq_append_conv ref)
    with u show ?thesis
      by (simp add: createUserProfile_ok [OF key None] ref)
  next
    case (Some e)
    from assms show ?thesis
      by (simp add: createUserProfile_fault [OF key Some] new_events_append_trace
          Cons_eq_append_conv)
  qed
qed

theorem C7_resolves_after_write_acknowledged_witness:
  "new_events \<lparr>docs = Map.empty, trace = []\<rparr> (snd (createUserProfile \<lparr>fault = None, refused_keys = {}, commit_time = 7\<rparr> [''uid'' \<mapsto> JStr ''abc123'', ''email'' \<mapsto> JStr ''a@example.com'',
       ''displayName'' \<mapsto> JStr ''Ada''] \<lparr>docs = Map.empty, trace = []\<rparr>)) =
     [WriteRequested (''users'', ''abc123'') (profile_data [''uid'' \<mapsto> JStr ''abc123'', ''email'' \<mapsto> JStr ''a@example.com'',
       ''displayName'' \<mapsto> JStr ''Ada'']),
      WriteAcked ''users/abc123''] @ HandlerResolved # [] \<and>
   docs (snd (createUserProfile \<lparr>fault = None, refused_keys = {}, commit_time = 7\<rparr> [''uid'' \<mapsto> JStr ''abc123'', ''email'' \<mapsto> JStr ''a@example.com'',
       ''displayName'' \<mapsto> JStr ''Ada''] \<lparr>docs = Map.empty, trace = []\<rparr>)) ''users/abc123'' \<noteq> None \<and>
   fst (createUserProfile \<lparr>fault = None, refused_keys = {}, commit_time = 7\<rparr> [''uid'' \<mapsto> JStr ''abc123'', ''email'' \<mapsto> JStr ''a@example.com'',
       ''displayName'' \<mapsto> JStr ''Ada''] \<lparr>docs = Map.empty, trace = []\<rparr>) = Inr ()"
proof -
  have k: "doc \<lparr>fault = None, refused_keys = {}, commit_time = 7\<rparr> (collection ''users'') (js_get [''uid'' \<mapsto> JStr ''abc123'', ''email'' \<mapsto> JStr ''a@example.com'',
       ''displayName'' \<mapsto> JStr ''Ada''] ''uid'') = Inr (''users'', ''abc123'')"
    by (simp add: doc_def collection_def js_get_def)
  have uid: "js_get [''uid'' \<mapsto> JStr ''abc123'', ''email'' \<mapsto> JStr ''a@example.com'',
       ''displayName'' \<mapsto> JStr ''Ada''] ''uid'' = JStr ''abc123''"
    by (simp add: js_get_def)
  have evs: "new_events \<lparr>docs = Map.empty, trace = []\<rparr> (snd (createUserProfile \<lparr>fault = None, refused_keys = {}, commit_time = 7\<rparr> [''uid'' \<mapsto> JStr ''abc123'', ''email'' \<mapsto> JStr ''a@example.com'',
       ''displayName'' \<mapsto> JStr ''Ada''] \<lparr>docs = Map.empty, trace = []\<rparr>)) =
     [WriteRequested (''users'', ''abc123'') (profile_data [''uid'' \<mapsto> JStr ''abc123'', ''email'' \<mapsto> JStr ''a@example.com'',
       ''displayName'' \<mapsto> JStr ''Ada'']),
      WriteAcked ''users/abc123''] @ HandlerResolved # []"
    using createUserProfile_ok [OF k, of "\<lparr>docs = Map.empty, trace = []\<rparr>"]
    by (simp add: new_events_def document_path_def)
  from C7_resolves_after_write_acknowledged [OF evs] uid evs show ?thesis
    by (auto simp: document_path_def)
qed

text \<open>
  C8. When the event's email, or its display name, is falsy (missing, \<^verbatim>\<open>undefined\<close>,
  \<^verbatim>\<open>null\<close> or the empty string among others), the field of the write request is
  \<^verbatim>\<open>null\<close>, and so is the field of the document stored by an invocation that
  succeeded.
\<close>

theorem C8_falsy_fields_become_null:
  assumes "name = ''email'' \<or> name = ''displayName''"
    and "\<not> truthy (js_get user name)"
  shows "profile_data user name = Some (Plain JNull) \<and>
    (\<forall>en w w' u. createUserProfile en user w = (Inr (), w') \<and> js_get user ''uid'' = JStr u \<longrightarrow>
       (\<exists>d. docs w' (document_path ''users'' u) = Some d \<and> d name = Some (Plain JNull)))"
proof -
  from assms have req: "profile_data user name = Some (Plain JNull)"
    by (auto simp: profile_data_def js_or_def)
  have "\<exists>d. docs w' (document_path ''users'' u) = Some d \<and> d name = Some (Plain JNull)"
    if run: "createUserProfile en user w = (Inr (), w')" and uid: "js_get user ''uid'' = JStr u"
    for en w w' u
  proof -
    from createUserProfile_success [OF run] obtain k where
      k: "key_of (js_get user ''uid'') = Some k" and
      w': "w' = w\<lparr>docs := (docs w)(document_path ''users'' k \<mapsto>
                 commit_data (commit_time en) (profile_data user)),
         trace := trace w @
          [WriteRequested (''users'', k) (profile_data user),
           WriteAcked (document_path ''users'' k), HandlerResolved]\<rparr>"
      by blast
    from k uid have "k = u" by (simp split: if_splits)
    then have "docs w' (document_path ''users'' u) =
        Some (commit_data (commit_time en) (profile_data user))"
      by (simp add: w')
    moreover from req have "commit_data (commit_time en) (profile_data user) name =
        Some (Plain JNull)"
      by (simp add: commit_data_def)
    ultimately show ?thesis by blast
  qed
  with req show ?thesis by blast
qed

theorem C8_falsy_fields_become_null_witness:
  "\<not> truthy (js_get [''uid'' \<mapsto> JStr ''abc123'', ''email'' \<mapsto> JStr '''',
                      ''displayName'' \<mapsto> JNull] ''email'') \<and>
   \<not> truthy (js_get [''uid'' \<mapsto> JStr ''abc123'', ''email'' \<mapsto> JStr '''',
                      ''displayName'' \<mapsto> JNull] ''displayName'') \<and>
   \<not> truthy (js_get [''uid'' \<mapsto> JStr ''abc123''] ''email'') \<and>
   profile_data [''uid'' \<mapsto> JStr ''abc123'', ''email'' \<mapsto> JStr '''',
                 ''displayName'' \<mapsto> JNull] ''email'' = Some (Plain JNull) \<and>
   profile_data [''uid'' \<mapsto> JStr ''abc123'', ''email'' \<mapsto> JStr '''',
                 ''displayName'' \<mapsto> JNull] ''displayName'' = Some (Plain JNull) \<and>
   profile_data [''uid'' \<mapsto> JStr ''abc123''] ''email'' = Some (Plain JNull) \<and>
   fst (createUserProfile \<lparr>fault = None, refused_keys = {}, commit_time = 7\<rparr>
          [''uid'' \<mapsto> JStr ''abc123'', ''email'' \<mapsto> JStr '''', ''displayName'' \<mapsto> JNull]
          \<lparr>docs = Map.empty, trace = []\<rparr>) = Inr () \<and>
   (\<exists>d. docs (snd (createUserProfile \<lparr>fault = None, refused_keys = {}, commit_time = 7\<rparr>
          [''uid'' \<mapsto> JStr ''abc123'', ''email'' \<mapsto> JStr '''', ''displayName'' \<mapsto> JNull]
          \<lparr>docs = Map.empty, trace = []\<rparr>)) ''users/abc123'' = Some d \<and>
        d ''email'' = Some (Plain JNull))"
proof -
  let ?en = "\<lparr>fault = None, refused_keys = {}, commit_time = 7\<rparr>"
  let ?user = "[''uid'' \<mapsto> JStr ''abc123'', ''email'' \<mapsto> JStr '''', ''displayName'' \<mapsto> JNull]"
  let ?bare = "[''uid'' \<mapsto> JStr ''abc123'']"
  let ?w = "\<lparr>docs = Map.empty, trace = []\<rparr>"
  have f1: "\<not> truthy (js_get ?user ''email'')"
    and f2: "\<not> truthy (js_get ?user ''displayName'')"
    and f3: "\<not> truthy (js_get ?bare ''email'')"
    by (simp_all add: js_get_def)
  have ok: "fst (createUserProfile ?en ?user ?w) = Inr ()"
    by (simp add: createUserProfile_def async_return_def set_doc_def doc_def
        collection_def emit_def js_get_def)
  then have run: "createUserProfile ?en ?user ?w = (Inr (), snd (createUserProfile ?en ?user ?w))"
    by (simp add: prod_eq_iff)
  have uid: "js_get ?user ''uid'' = JStr ''abc123''"
    by (simp add: js_get_def)
  have path: "document_path ''users'' ''abc123'' = ''users/abc123''"
    by (simp add: document_path_def)
  note a = C8_falsy_fields_become_null [of "''email''" ?user, OF disjI1 [OF refl] f1]
  note b = C8_falsy_fields_become_null [of "''displayName''" ?user, OF disjI2 [OF refl] f2]
  note c = C8_falsy_fields_become_null [of "''email''" ?bare, OF disjI1 [OF refl] f3]
  from a run uid have "\<exists>d. docs (snd (createUserProfile ?en ?user ?w))
      (document_path ''users'' ''abc123'') = Some d \<and> d ''email'' = Some (Plain JNull)"
    by blast
  with a b c f1 f2 f3 ok show ?thesis
    unfolding path by blast
qed

text \<open>
  C9, as it stands, fails on an event with an empty identifier: the client refuses
  the key when \<^verbatim>\<open>doc\<close> is called, so no write is issued, although the store is
  available; the only event is the rejection of the handler's promise.
\<close>

theorem C9_empty_uid_counterexample:
  "js_get [''uid'' \<mapsto> JStr '''', ''email'' \<mapsto> JStr ''a@example.com''] ''uid'' = JStr '''' \<and>
   fault \<lparr>fault = None, refused_keys = {}, commit_time = 7\<rparr> = None \<and>
   fst (createUserProfile \<lparr>fault = None, refused_keys = {}, commit_time = 7\<rparr> [''uid'' \<mapsto> JStr '''', ''email'' \<mapsto> JStr ''a@example.com''] \<lparr>docs = Map.empty, trace = []\<rparr>) = Inl MalformedKey \<and>
   new_events \<lparr>docs = Map.empty, trace = []\<rparr> (snd (createUserProfile \<lparr>fault = None, refused_keys = {}, commit_time = 7\<rparr> [''uid'' \<mapsto> JStr '''', ''email'' \<mapsto> JStr ''a@example.com''] \<lparr>docs = Map.empty, trace = []\<rparr>)) = [HandlerRejected MalformedKey] \<and>
   docs (snd (createUserProfile \<lparr>fault = None, refused_keys = {}, commit_time = 7\<rparr> [''uid'' \<mapsto> JStr '''', ''email'' \<mapsto> JStr ''a@example.com''] \<lparr>docs = Map.empty, trace = []\<rparr>)) = docs \<lparr>docs = Map.empty, trace = []\<rparr>"
proof -
  have k: "doc \<lparr>fault = None, refused_keys = {}, commit_time = 7\<rparr> (collection ''users'') (js_get [''uid'' \<mapsto> JStr '''', ''email'' \<mapsto> JStr ''a@example.com''] ''uid'') = Inl MalformedKey"
    by (simp add: doc_def js_get_def)
  show ?thesis
    by (simp add: createUserProfile_refused [OF k] new_events_def js_get_def)
qed

text \<open>
  C9, amended. The handler checks nothing: for every event, whatever its \<^verbatim>\<open>uid\<close>
  is, it hands that \<^verbatim>\<open>uid\<close> to the store's client as the key of the document in the
  collection \<^verbatim>\<open>users\<close>. When the client refuses the key, the handler fails with the
  client's error, no write is issued and no document changes. When the client accepts
  it, the first thing that happens is the write of \<open>profile_data\<close> under that
  \<^verbatim>\<open>uid\<close>; the store's answer is the only other event before the handler's promise
  settles, and the handler fails exactly when that answer is a failure, with the
  store's error.
\<close>

theorem C9_no_handler_validation:
  "(\<forall>e. doc en (collection ''users'') (js_get user ''uid'') = Inl e \<longrightarrow>
      createUserProfile en user w = (Inl e, w\<lparr>trace := trace w @ [HandlerRejected e]\<rparr>)) \<and>
   (\<forall>ref. doc en (collection ''users'') (js_get user ''uid'') = Inr ref \<longrightarrow>
      fst ref = ''users'' \<and> js_get user ''uid'' = JStr (snd ref) \<and>
      (\<exists>answer settled.
         new_events w (snd (createUserProfile en user w)) =
           [WriteRequested ref (profile_data user), answer, settled] \<and>
         (answer = WriteAcked (document_path ''users'' (snd ref)) \<or>
          (\<exists>e. answer = WriteFailed e)) \<and>
         (\<forall>e. fst (createUserProfile en user w) = Inl e \<longleftrightarrow> answer = WriteFailed e) \<and>
         (\<forall>e. answer = WriteFailed e \<longleftrightarrow> settled = HandlerRejected e)))"
proof (cases "doc en (collection ''users'') (js_get user ''uid'')")
  case (Inl e)
  then show ?thesis
    by (simp add: createUserProfile_refused [OF Inl])
next
  case (Inr ref)
  note key = this
  from key have ref: "fst ref = ''users''" "js_get user ''uid'' = JStr (snd ref)"
    by (auto simp: doc_accepts key_of_Some collection_def)
  have "\<exists>answer settled.
         new_events w (snd (createUserProfile en user w)) =
           [WriteRequested ref (profile_data user), answer, settled] \<and>
         (answer = WriteAcked (document_path ''users'' (snd ref)) \<or>
          (\<exists>e. answer = WriteFailed e)) \<and>
         (\<forall>e. fst (createUserProfile en user w) = Inl e \<longleftrightarrow> answer = WriteFailed e) \<and>
         (\<forall>e. answer = WriteFailed e \<longleftrightarrow> settled = HandlerRejected e)"
  proof (cases "fault en")
    case None
    have "new_events w (snd (createUserProfile en user w)) =
         [WriteRequested ref (profile_data user),
          WriteAcked (document_path ''users'' (snd ref)), HandlerResolved]"
      "fst (createUserProfile en user w) = Inr ()"
      by (simp_all add: createUserProfile_ok [OF key None] new_events_append ref)
    then show ?thesis by auto
  next
    case (Some e')
    have "new_events w (snd (createUserProfile en user w)) =
         [WriteRequested ref (profile_data user), WriteFailed e', HandlerRejected e']"
      "fst (createUserProfile en user w) = Inl e'"
      by (simp_all add: createUserProfile_fault [OF key Some] new_events_append_trace)
    then show ?thesis by auto
  qed
  with key ref show ?thesis by simp
qed

theorem C9_no_handler_validation_witness:
  "doc \<lparr>fault = None, refused_keys = {}, commit_time = 7\<rparr> (collection ''users'') (js_get [''uid'' \<mapsto> JStr '''', ''email'' \<mapsto> JStr ''a@example.com''] ''uid'') = Inl MalformedKey \<and>
   createUserProfile \<lparr>fault = None, refused_keys = {}, commit_time = 7\<rparr> [''uid'' \<mapsto> JStr '''', ''email'' \<mapsto> JStr ''a@example.com''] \<lparr>docs = Map.empty, trace = []\<rparr> =
     (Inl MalformedKey, \<lparr>docs = Map.empty, trace = []\<rparr>\<lparr>trace := trace \<lparr>docs = Map.empty, trace = []\<rparr> @ [HandlerRejected MalformedKey]\<rparr>) \<and>
   doc \<lparr>fault = Some Unavailable, refused_keys = {}, commit_time = 7\<rparr> (collection ''users'') (js_get [''uid'' \<mapsto> JStr ''abc123'', ''email'' \<mapsto> JStr ''a@example.com''] ''uid'') = Inr (''users'', ''abc123'') \<and>
   js_get [''uid'' \<mapsto> JStr ''abc123'', ''email'' \<mapsto> JStr ''a@example.com''] ''uid'' = JStr ''abc123'' \<and>
   (\<exists>answer settled.
      new_events \<lparr>docs = Map.empty, trace = []\<rparr> (snd (createUserProfile \<lparr>fault = Some Unavailable, refused_keys = {}, commit_time = 7\<rparr> [''uid'' \<mapsto> JStr ''abc123'', ''email'' \<mapsto> JStr ''a@example.com''] \<lparr>docs = Map.empty, trace = []\<rparr>)) =
        [WriteRequested (''users'', ''abc123'') (profile_data [''uid'' \<mapsto> JStr ''abc123'', ''email'' \<mapsto> JStr ''a@example.com'']), answer, settled] \<and>
      answer = WriteFailed Unavailable \<and> settled = HandlerRejected Unavailable \<and>
      fst (createUserProfile \<lparr>fault = Some Unavailable, refused_keys = {}, commit_time = 7\<rparr> [''uid'' \<mapsto> JStr ''abc123'', ''email'' \<mapsto> JStr ''a@example.com''] \<lparr>docs = Map.empty, trace = []\<rparr>) = Inl Unavailable)"
proof -
  have k0: "doc \<lparr>fault = None, refused_keys = {}, commit_time = 7\<rparr> (collection ''users'') (js_get [''uid'' \<mapsto> JStr '''', ''email'' \<mapsto> JStr ''a@example.com''] ''uid'') = Inl MalformedKey"
    by (simp add: doc_def js_get_def)
  have k1: "doc \<lparr>fault = Some Unavailable, refused_keys = {}, commit_time = 7\<rparr> (collection ''users'') (js_get [''uid'' \<mapsto> JStr ''abc123'', ''email'' \<mapsto> JStr ''a@example.com''] ''uid'') = Inr (''users'', ''abc123'')"
    by (simp add: doc_def collection_def js_get_def)
  have failed: "fst (createUserProfile \<lparr>fault = Some Unavailable, refused_keys = {}, commit_time = 7\<rparr> [''uid'' \<mapsto> JStr ''abc123'', ''email'' \<mapsto> JStr ''a@example.com''] \<lparr>docs = Map.empty, trace = []\<rparr>) = Inl Unavailable"
    by (simp add: createUserProfile_fault [OF k1])
  note a = C9_no_handler_validation [of "\<lparr>fault = None, refused_keys = {}, commit_time = 7\<rparr>" "[''uid'' \<mapsto> JStr '''', ''email'' \<mapsto> JStr ''a@example.com'']" "\<lparr>docs = Map.empty, trace = []\<rparr>"]
  note b = C9_no_handler_validation [of "\<lparr>fault = Some Unavailable, refused_keys = {}, commit_time = 7\<rparr>" "[''uid'' \<mapsto> JStr ''abc123'', ''email'' \<mapsto> JStr ''a@example.com'']" "\<lparr>docs = Map.empty, trace = []\<rparr>"]
  from a k0 have first: "createUserProfile \<lparr>fault = None, refused_keys = {}, commit_time = 7\<rparr> [''uid'' \<mapsto> JStr '''', ''email'' \<mapsto> JStr ''a@example.com''] \<lparr>docs = Map.empty, trace = []\<rparr> =
     (Inl MalformedKey, \<lparr>docs = Map.empty, trace = []\<rparr>\<lparr>trace := trace \<lparr>docs = Map.empty, trace = []\<rparr> @ [HandlerRejected MalformedKey]\<rparr>)"
    by blast
  from b k1 obtain answer settled where
    evs: "new_events \<lparr>docs = Map.empty, trace = []\<rparr> (snd (createUserProfile \<lparr>fault = Some Unavailable, refused_keys = {}, commit_time = 7\<rparr> [''uid'' \<mapsto> JStr ''abc123'', ''email'' \<mapsto> JStr ''a@example.com''] \<lparr>docs = Map.empty, trace = []\<rparr>)) =
        [WriteRequested (''users'', ''abc123'') (profile_data [''uid'' \<mapsto> JStr ''abc123'', ''email'' \<mapsto> JStr ''a@example.com'']), answer, settled]"
    and ans: "\<forall>e. fst (createUserProfile \<lparr>fault = Some Unavailable, refused_keys = {}, commit_time = 7\<rparr> [''uid'' \<mapsto> JStr ''abc123'', ''email'' \<mapsto> JStr ''a@example.com''] \<lparr>docs = Map.empty, trace = []\<rparr>) = Inl e \<longleftrightarrow> answer = WriteFailed e"
    and settle: "\<forall>e. answer = WriteFailed e \<longleftrightarrow> settled = HandlerRejected e"
    and uid: "js_get [''uid'' \<mapsto> JStr ''abc123'', ''email'' \<mapsto> JStr ''a@example.com''] ''uid'' = JStr ''abc123''"
    by auto
  from ans failed have "answer = WriteFailed Unavailable" by blast
  moreover with settle have "settled = HandlerRejected Unavailable" by blast
  ultimately show ?thesis
    using k0 first k1 uid evs failed by blast
qed

text \<open>
  C10. Two events that agree on \<^verbatim>\<open>uid\<close>, \<^verbatim>\<open>email\<close> and \<^verbatim>\<open>displayName\<close> give the same
  write request, the same key and the same payload, whatever their other fields are,
  and so the same invocation.
\<close>

theorem C10_request_depends_on_three_fields:
  assumes "js_get user1 ''uid'' = js_get user2 ''uid''"
    and "js_get user1 ''email'' = js_get user2 ''email''"
    and "js_get user1 ''displayName'' = js_get user2 ''displayName''"
  shows "doc en (collection ''users'') (js_get user1 ''uid'') =
           doc en (collection ''users'') (js_get user2 ''uid'') \<and>
         profile_data user1 = profile_data user2 \<and>
         createUserProfile en user1 w = createUserProfile en user2 w"
proof -
  from assms(2,3) have same: "profile_data user1 = profile_data user2"
    by (simp add: profile_data_def)
  show ?thesis
    unfolding createUserProfile_def assms(1) same by simp
qed

theorem C10_request_depends_on_three_fields_witness:
  "[''uid'' \<mapsto> JStr ''abc123'', ''email'' \<mapsto> JStr ''a@example.com'',
    ''photoURL'' \<mapsto> JStr ''http://x/1.png'', ''disabled'' \<mapsto> JBool False] ''photoURL'' \<noteq>
   [''uid'' \<mapsto> JStr ''abc123'', ''email'' \<mapsto> JStr ''a@example.com'',
    ''phoneNumber'' \<mapsto> JStr ''+15550100''] ''photoURL'' \<and>
   profile_data [''uid'' \<mapsto> JStr ''abc123'', ''email'' \<mapsto> JStr ''a@example.com'',
    ''photoURL'' \<mapsto> JStr ''http://x/1.png'', ''disabled'' \<mapsto> JBool False] =
   profile_data [''uid'' \<mapsto> JStr ''abc123'', ''email'' \<mapsto> JStr ''a@example.com'',
    ''phoneNumber'' \<mapsto> JStr ''+15550100''] \<and>
   createUserProfile \<lparr>fault = None, refused_keys = {}, commit_time = 7\<rparr>
     [''uid'' \<mapsto> JStr ''abc123'', ''email'' \<mapsto> JStr ''a@example.com'',
      ''photoURL'' \<mapsto> JStr ''http://x/1.png'', ''disabled'' \<mapsto> JBool False]
     \<lparr>docs = Map.empty, trace = []\<rparr> =
   createUserProfile \<lparr>fault = None, refused_keys = {}, commit_time = 7\<rparr>
     [''uid'' \<mapsto> JStr ''abc123'', ''email'' \<mapsto> JStr ''a@example.com'',
      ''phoneNumber'' \<mapsto> JStr ''+15550100'']
     \<lparr>docs = Map.empty, trace = []\<rparr>"
proof -
  let ?user1 = "[''uid'' \<mapsto> JStr ''abc123'', ''email'' \<mapsto> JStr ''a@example.com'',
    ''photoURL'' \<mapsto> JStr ''http://x/1.png'', ''disabled'' \<mapsto> JBool False]"
  let ?user2 = "[''uid'' \<mapsto> JStr ''abc123'', ''email'' \<mapsto> JStr ''a@example.com'',
    ''phoneNumber'' \<mapsto> JStr ''+15550100'']"
  have agree: "js_get ?user1 ''uid'' = js_get ?user2 ''uid''"
    "js_get ?user1 ''email'' = js_get ?user2 ''email''"
    "js_get ?user1 ''displayName'' = js_get ?user2 ''displayName''"
    by (simp_all add: js_get_def)
  have differ: "?user1 ''photoURL'' \<noteq> ?user2 ''photoURL''"
    by simp
  from C10_request_depends_on_three_fields [OF agree] differ show ?thesis
    by blast
qed

end
